theory Spec2Isabelle
  imports Main
begin

section \<open>Values\<close>

text \<open>
  The program handles whatever \<^verbatim>\<open>res.json()\<close> hands back: Python objects built from a
  JSON document. A Python \<^verbatim>\<open>str\<close> is kept as the list of the bytes of its UTF-8
  encoding; concatenation, equality, emptiness and the substring test agree with the
  same operations on code points. A \<^verbatim>\<open>dict\<close> is the list of its items in insertion
  order (keys are distinct in a real dict; lookup takes the first match). A \<^verbatim>\<open>float\<close>
  is a sign, a mantissa and a binary exponent, or one of the special values.
\<close>

datatype pyfloat = Finite bool nat int | Infinite bool | NaN

datatype json =
    JNull
  | JBool bool
  | JInt int
  | JFloat pyfloat
  | JStr string
  | JArr "json list"
  | JObj "(string \<times> json) list"

text \<open>Every way a statement of the program can raise, as a value.\<close>

datatype py_error =
    KeyError
  | TypeError
  | AttributeError
  | ConnectError
  | TimeoutException
  | HTTPStatusError
  | JSONDecodeError

fun bind_err :: "py_error + 'a \<Rightarrow> ('a \<Rightarrow> py_error + 'b) \<Rightarrow> py_error + 'b" where
  "bind_err (Inl e) f = Inl e"
| "bind_err (Inr x) f = f x"

section \<open>The Python operations the program applies to these values\<close>

text \<open>\<^verbatim>\<open>not v\<close> is the negation of the truth value of \<open>v\<close>.\<close>

fun truthy :: "json \<Rightarrow> bool" where
  "truthy JNull = False"
| "truthy (JBool b) = b"
| "truthy (JInt i) = (i \<noteq> 0)"
| "truthy (JFloat (Finite s m e)) = (m \<noteq> 0)"
| "truthy (JFloat (Infinite s)) = True"
| "truthy (JFloat NaN) = True"
| "truthy (JStr s) = (s \<noteq> [])"
| "truthy (JArr xs) = (xs \<noteq> [])"
| "truthy (JObj kvs) = (kvs \<noteq> [])"

fun is_substring :: "string \<Rightarrow> string \<Rightarrow> bool" where
  "is_substring k [] = (k = [])"
| "is_substring k (c # cs) = (take (length k) (c # cs) = k \<or> is_substring k cs)"

text \<open>
  \<^verbatim>\<open>k in v\<close> for a string \<open>k\<close>: key membership in a dict, element membership in a
  list, the substring test in a string, and \<^verbatim>\<open>TypeError\<close> (argument is not iterable)
  for \<^verbatim>\<open>None\<close>, booleans and numbers.
\<close>

fun py_in :: "string \<Rightarrow> json \<Rightarrow> py_error + bool" where
  "py_in k (JObj kvs) = Inr (map_of kvs k \<noteq> None)"
| "py_in k (JArr xs) = Inr (JStr k \<in> set xs)"
| "py_in k (JStr s) = Inr (is_substring k s)"
| "py_in k v = Inl TypeError"

text \<open>
  \<^verbatim>\<open>v[k]\<close> for a string \<open>k\<close>: the value in a dict or \<^verbatim>\<open>KeyError\<close>; \<^verbatim>\<open>TypeError\<close> for
  every other value (list and string indices must be integers, the rest is not
  subscriptable).
\<close>

fun py_getitem :: "json \<Rightarrow> string \<Rightarrow> py_error + json" where
  "py_getitem (JObj kvs) k = (case map_of kvs k of None \<Rightarrow> Inl KeyError | Some v \<Rightarrow> Inr v)"
| "py_getitem v k = Inl TypeError"

text \<open>
  \<^verbatim>\<open>v.get(k, d)\<close> with a string default: only a dict has the method, every other value
  raises \<^verbatim>\<open>AttributeError\<close>.
\<close>

fun py_get :: "json \<Rightarrow> string \<Rightarrow> string \<Rightarrow> py_error + json" where
  "py_get (JObj kvs) k d = Inr (case map_of kvs k of None \<Rightarrow> JStr d | Some v \<Rightarrow> v)"
| "py_get v k d = Inl AttributeError"

text \<open>The code points of a string: a lead byte with the continuation bytes after it.\<close>

definition is_continuation :: "char \<Rightarrow> bool" where
  "is_continuation c = (128 \<le> (of_char c :: nat) \<and> (of_char c :: nat) < 192)"

function chars_of :: "string \<Rightarrow> string list" where
  "chars_of [] = []"
| "chars_of (c # cs) = (c # takeWhile is_continuation cs) # chars_of (dropWhile is_continuation cs)"
  by pat_completeness auto
termination
  by (relation "measure length") (auto simp: length_dropWhile_le less_Suc_eq_le)

text \<open>
  \<^verbatim>\<open>v[:n]\<close>: a list or a string gives its first \<open>n\<close> items, fewer when it is shorter.
  A dict raises (\<^verbatim>\<open>KeyError\<close> from Python 3.12, where a slice is hashable;
  \<^verbatim>\<open>TypeError\<close> before), every other value raises \<^verbatim>\<open>TypeError\<close>.
\<close>

fun py_slice_upto :: "nat \<Rightarrow> json \<Rightarrow> py_error + json" where
  "py_slice_upto n (JArr xs) = Inr (JArr (take n xs))"
| "py_slice_upto n (JStr s) = Inr (JStr (concat (take n (chars_of s))))"
| "py_slice_upto n (JObj kvs) = Inl KeyError"
| "py_slice_upto n v = Inl TypeError"

text \<open>
  Iteration (\<^verbatim>\<open>for x in v\<close>): the items of a list, the keys of a dict, the one-character
  strings of a string; \<^verbatim>\<open>TypeError\<close> for the rest.
\<close>

fun py_iter :: "json \<Rightarrow> py_error + json list" where
  "py_iter (JArr xs) = Inr xs"
| "py_iter (JObj kvs) = Inr (map (\<lambda>kv. JStr (fst kv)) kvs)"
| "py_iter (JStr s) = Inr (map JStr (chars_of s))"
| "py_iter v = Inl TypeError"

text \<open>
  A list comprehension, or a loop that appends one result per item: the results in
  order, or the first error raised.
\<close>

fun py_map_list :: "('a \<Rightarrow> py_error + 'b) \<Rightarrow> 'a list \<Rightarrow> py_error + 'b list" where
  "py_map_list f [] = Inr []"
| "py_map_list f (x # xs) =
     bind_err (f x) (\<lambda>y. bind_err (py_map_list f xs) (\<lambda>ys. Inr (y # ys)))"

text \<open>\<^verbatim>\<open>sep.join(xs)\<close>.\<close>

fun join :: "string \<Rightarrow> string list \<Rightarrow> string" where
  "join sep [] = []"
| "join sep [x] = x"
| "join sep (x # y # ys) = x @ sep @ join sep (y # ys)"

text \<open>
  A replacement field \<^verbatim>\<open>{v}\<close> of an f-string is \<^verbatim>\<open>format(v, '')\<close>: a string as it
  is, \<^verbatim>\<open>None\<close>, booleans and integers as Python prints them. The text of a float,
  a list or a dict (the shortest round-trip digits, \<^verbatim>\<open>repr\<close> of nested strings) is
  not fixed here: it is the parameter \<open>r\<close>, and every result holds for any \<open>r\<close>.
\<close>

fun str_nat :: "nat \<Rightarrow> string" where
  "str_nat n =
     (if n < 10 then [char_of (48 + n)] else str_nat (n div 10) @ [char_of (48 + n mod 10)])"

declare str_nat.simps [simp del]

definition str_int :: "int \<Rightarrow> string" where
  "str_int i = (if i < 0 then ''-'' @ str_nat (nat (- i)) else str_nat (nat i))"

fun py_format :: "(json \<Rightarrow> string) \<Rightarrow> json \<Rightarrow> string" where
  "py_format r (JStr s) = s"
| "py_format r JNull = ''None''"
| "py_format r (JBool b) = (if b then ''True'' else ''False'')"
| "py_format r (JInt i) = str_int i"
| "py_format r v = r v"

definition newline :: string where
  "newline = [CHR 0x0A]"

text \<open>The degree sign U+00B0, two bytes in UTF-8.\<close>

definition degree :: string where
  "degree = [CHR 0xC2, CHR 0xB0]"

section \<open>The HTTP exchange\<close>

text \<open>
  \<^verbatim>\<open>client.get\<close> either raises (a connection error, a timeout) or returns a response,
  of which the program reads the status code and \<^verbatim>\<open>res.json()\<close>: the parsed body, or
  nothing when the body is not JSON. What the network answers to a URL may depend on the
  calls made before; the list of the arguments of all \<^verbatim>\<open>client.get\<close> calls so far is
  the only state.
\<close>

datatype http_outcome = Raises py_error | Response nat "json option"

type_synonym network = "json list \<Rightarrow> string \<Rightarrow> http_outcome"

text \<open>httpx rejects a URL that is neither a string nor its own URL type with \<^verbatim>\<open>TypeError\<close>.\<close>

fun client_get :: "network \<Rightarrow> json list \<Rightarrow> json \<Rightarrow> http_outcome" where
  "client_get net calls (JStr u) = net calls u"
| "client_get net calls v = Raises TypeError"

text \<open>\<^verbatim>\<open>res.raise_for_status()\<close> raises unless the status is 2xx.\<close>

definition raise_for_status :: "nat \<Rightarrow> py_error + unit" where
  "raise_for_status status = (if 200 \<le> status \<and> status \<le> 299 then Inr () else Inl HTTPStatusError)"

definition res_json :: "json option \<Rightarrow> py_error + json" where
  "res_json body = (case body of None \<Rightarrow> Inl JSONDecodeError | Some j \<Rightarrow> Inr j)"

text \<open>The body of the \<^verbatim>\<open>try\<close> block of \<^verbatim>\<open>make_nws_request\<close> (lines 22 to 24).\<close>

definition request_body :: "network \<Rightarrow> json list \<Rightarrow> json \<Rightarrow> py_error + json" where
  "request_body net calls url =
     (case client_get net calls url of
        Raises e \<Rightarrow> Inl e
      | Response status body \<Rightarrow> bind_err (raise_for_status status) (\<lambda>_. res_json body))"

text \<open>
  \<^verbatim>\<open>make_nws_request\<close>: the handler \<^verbatim>\<open>except Exception\<close> catches whatever the block
  raised, logs it, and the function falls off its end, which returns \<^verbatim>\<open>None\<close>. The
  log entry is not part of the model. The second component is the updated list of calls.
\<close>

definition make_nws_request :: "network \<Rightarrow> json list \<Rightarrow> json \<Rightarrow> json \<times> json list" where
  "make_nws_request net calls url =
     ((case request_body net calls url of Inl e \<Rightarrow> JNull | Inr j \<Rightarrow> j), calls @ [url])"

section \<open>The formatter and the two tools\<close>

definition NWS_API_BASE :: string where
  "NWS_API_BASE = ''https://api.weather.gov''"

definition separator :: string where
  "separator = newline @ ''---'' @ newline"

definition format_alert :: "(json \<Rightarrow> string) \<Rightarrow> json \<Rightarrow> py_error + string" where
  "format_alert r feature =
     bind_err (py_getitem feature ''properties'') (\<lambda>props.
     bind_err (py_get props ''event'' ''Unknown'') (\<lambda>event.
     bind_err (py_get props ''areaDesc'' ''Unknown'') (\<lambda>area.
     bind_err (py_get props ''severity'' ''Unknown'') (\<lambda>severity.
     bind_err (py_get props ''description'' ''No description available'') (\<lambda>description.
     bind_err (py_get props ''instruction'' ''No specific instructions provided'') (\<lambda>instruction.
       Inr (newline @ ''Event: '' @ py_format r event
          @ newline @ ''Area: '' @ py_format r area
          @ newline @ ''Severity: '' @ py_format r severity
          @ newline @ ''Description: '' @ py_format r description
          @ newline @ ''Instructions: '' @ py_format r instruction
          @ newline)))))))"

definition alerts_url :: "string \<Rightarrow> string" where
  "alerts_url state = NWS_API_BASE @ ''/alerts/active/area/'' @ state"

definition get_alerts ::
  "(json \<Rightarrow> string) \<Rightarrow> network \<Rightarrow> json list \<Rightarrow> string \<Rightarrow> (py_error + string) \<times> json list" where
  "get_alerts r net calls state =
     (let (data, calls1) = make_nws_request net calls (JStr (alerts_url state))
      in (if \<not> truthy data then Inr ''Unable to fetch alerts or no alerts found.''
          else bind_err (py_in ''features'' data) (\<lambda>present.
            if \<not> present then Inr ''Unable to fetch alerts or no alerts found.''
            else bind_err (py_getitem data ''features'') (\<lambda>features.
              if \<not> truthy features then Inr ''No active alerts for this state.''
              else bind_err (py_iter features) (\<lambda>fs.
                   bind_err (py_map_list (format_alert r) fs) (\<lambda>alerts.
                     Inr (join separator alerts))))),
          calls1))"

text \<open>
  The test of lines 72 and 80, \<^verbatim>\<open>k1 not in d or k2 not in d[k1]\<close>: the second operand
  is evaluated only when the first is false.
\<close>

definition missing_nested :: "json \<Rightarrow> string \<Rightarrow> string \<Rightarrow> py_error + bool" where
  "missing_nested d k1 k2 =
     bind_err (py_in k1 d) (\<lambda>present.
       if \<not> present then Inr True
       else bind_err (py_getitem d k1) (\<lambda>inner.
            bind_err (py_in k2 inner) (\<lambda>present2. Inr (\<not> present2))))"

text \<open>The block of one period (lines 88 to 93); the fields are read from left to right.\<close>

definition format_period :: "(json \<Rightarrow> string) \<Rightarrow> json \<Rightarrow> py_error + string" where
  "format_period r period =
     bind_err (py_getitem period ''name'') (\<lambda>name.
     bind_err (py_getitem period ''temperature'') (\<lambda>temperature.
     bind_err (py_getitem period ''temperatureUnit'') (\<lambda>unit.
     bind_err (py_getitem period ''windSpeed'') (\<lambda>wind_speed.
     bind_err (py_getitem period ''windDirection'') (\<lambda>wind_direction.
     bind_err (py_getitem period ''detailedForecast'') (\<lambda>detailed.
       Inr (newline @ py_format r name
          @ newline @ ''Temperature: '' @ py_format r temperature @ degree @ py_format r unit
          @ newline @ ''Wind: '' @ py_format r wind_speed @ '' '' @ py_format r wind_direction
          @ newline @ ''Forecast: '' @ py_format r detailed
          @ newline)))))))"

definition points_url :: "(json \<Rightarrow> string) \<Rightarrow> pyfloat \<Rightarrow> pyfloat \<Rightarrow> string" where
  "points_url r latitude longitude =
     NWS_API_BASE @ ''/points/'' @ py_format r (JFloat latitude) @ '','' @ py_format r (JFloat longitude)"

definition periods_count :: nat where
  "periods_count = 5"

text \<open>Step 3 of \<^verbatim>\<open>get_forecast\<close> (lines 84 to 95).\<close>

definition format_forecast :: "(json \<Rightarrow> string) \<Rightarrow> json \<Rightarrow> py_error + string" where
  "format_forecast r forecast_data =
     bind_err (py_getitem forecast_data ''properties'') (\<lambda>props.
     bind_err (py_getitem props ''periods'') (\<lambda>periods.
     bind_err (py_slice_upto periods_count periods) (\<lambda>first.
     bind_err (py_iter first) (\<lambda>ps.
     bind_err (py_map_list (format_period r) ps) (\<lambda>forecasts.
       Inr (join separator forecasts))))))"

text \<open>Step 2 of \<^verbatim>\<open>get_forecast\<close> (lines 76 to 81), followed by step 3.\<close>

definition fetch_forecast ::
  "(json \<Rightarrow> string) \<Rightarrow> network \<Rightarrow> json list \<Rightarrow> json \<Rightarrow> (py_error + string) \<times> json list" where
  "fetch_forecast r net calls1 forecast_url =
     (let (forecast_data, calls2) = make_nws_request net calls1 forecast_url
      in (if \<not> truthy forecast_data then Inr ''Unable to fetch forecast data for this location.''
          else bind_err (missing_nested forecast_data ''properties'' ''periods'') (\<lambda>missing.
            if missing then Inr ''Invalid forecast data received: missing period information.''
            else format_forecast r forecast_data),
          calls2))"

definition get_forecast ::
  "(json \<Rightarrow> string) \<Rightarrow> network \<Rightarrow> json list \<Rightarrow> pyfloat \<Rightarrow> pyfloat \<Rightarrow> (py_error + string) \<times> json list" where
  "get_forecast r net calls latitude longitude =
     (let (points_data, calls1) = make_nws_request net calls (JStr (points_url r latitude longitude))
      in if \<not> truthy points_data then (Inr ''Unable to fetch points data for this location.'', calls1)
         else (case missing_nested points_data ''properties'' ''forecast'' of
                 Inl e \<Rightarrow> (Inl e, calls1)
               | Inr True \<Rightarrow> (Inr ''Invalid points data received: missing forecast information.'', calls1)
               | Inr False \<Rightarrow>
                   (case bind_err (py_getitem points_data ''properties'') (\<lambda>props. py_getitem props ''forecast'') of
                      Inl e \<Rightarrow> (Inl e, calls1)
                    | Inr forecast_url \<Rightarrow> fetch_forecast r net calls1 forecast_url)))"

section \<open>The shapes the specification names\<close>

text \<open>
  An alert-feature record, in the words of the data model: a JSON object with a
  \<^verbatim>\<open>properties\<close> sub-object.
\<close>

definition is_alert_feature :: "json \<Rightarrow> bool" where
  "is_alert_feature f =
     (case f of
        JObj kvs \<Rightarrow> (case map_of kvs ''properties'' of Some (JObj ps) \<Rightarrow> True | _ \<Rightarrow> False)
      | _ \<Rightarrow> False)"

text \<open>The five-field block of the alert formatter, as the specification describes it.\<close>

definition spec_alert_block :: "string \<Rightarrow> string \<Rightarrow> string \<Rightarrow> string \<Rightarrow> string \<Rightarrow> string" where
  "spec_alert_block event area severity description instruction =
     newline @ ''Event: '' @ event @ newline @ ''Area: '' @ area @ newline
       @ ''Severity: '' @ severity @ newline @ ''Description: '' @ description @ newline
       @ ''Instructions: '' @ instruction @ newline"

text \<open>The text of one field: the placeholder when the key is absent, the value otherwise.\<close>

definition spec_field :: "(json \<Rightarrow> string) \<Rightarrow> (string \<times> json) list \<Rightarrow> string \<Rightarrow> string \<Rightarrow> string" where
  "spec_field r ps k placeholder = (case map_of ps k of None \<Rightarrow> placeholder | Some v \<Rightarrow> py_format r v)"

text \<open>
  Blocks joined by the separator line, written out: the first block, then each further
  block behind the five characters of the line.
\<close>

definition spec_separated :: "string list \<Rightarrow> string" where
  "spec_separated bs =
     (case bs of
        [] \<Rightarrow> []
      | b # rest \<Rightarrow> concat (b # map (\<lambda>x. ''\<newline>---\<newline>'' @ x) rest))"

definition period_fields :: "string list" where
  "period_fields =
     [''name'', ''temperature'', ''temperatureUnit'', ''windSpeed'', ''windDirection'',
      ''detailedForecast'']"

text \<open>A period record that carries all six fields, and one that lacks some of them.\<close>

definition is_period_record :: "json \<Rightarrow> bool" where
  "is_period_record p =
     (case p of JObj kvs \<Rightarrow> list_all (\<lambda>k. map_of kvs k \<noteq> None) period_fields | _ \<Rightarrow> False)"

definition lacks_period_field :: "json \<Rightarrow> bool" where
  "lacks_period_field p =
     (case p of JObj kvs \<Rightarrow> list_ex (\<lambda>k. map_of kvs k = None) period_fields | _ \<Rightarrow> False)"

text \<open>
  ``The response lacks \<open>k1.k2\<close>'', read as it stands: no value is reached by the key
  \<open>k1\<close> and then the key \<open>k2\<close>.
\<close>

definition lacks_nested :: "json \<Rightarrow> string \<Rightarrow> string \<Rightarrow> bool" where
  "lacks_nested d k1 k2 =
     (case d of
        JObj kvs \<Rightarrow>
          (case map_of kvs k1 of Some (JObj ps) \<Rightarrow> map_of ps k2 = None | _ \<Rightarrow> True)
      | _ \<Rightarrow> True)"

text \<open>
  The narrower shape the validation of the tools answers with its message: a non-empty
  object without the key \<open>k1\<close>, or whose \<open>k1\<close> is an object without the key \<open>k2\<close>.
\<close>

definition object_lacks :: "json \<Rightarrow> string \<Rightarrow> string \<Rightarrow> bool" where
  "object_lacks d k1 k2 =
     (case d of
        JObj kvs \<Rightarrow>
          kvs \<noteq> [] \<and>
          (case map_of kvs k1 of None \<Rightarrow> True | Some (JObj ps) \<Rightarrow> map_of ps k2 = None | _ \<Rightarrow> False)
      | _ \<Rightarrow> False)"

text \<open>An object with a value \<open>v\<close> under \<open>k1\<close> and then \<open>k2\<close>.\<close>

definition has_nested :: "json \<Rightarrow> string \<Rightarrow> string \<Rightarrow> json \<Rightarrow> bool" where
  "has_nested d k1 k2 v =
     (case d of
        JObj kvs \<Rightarrow>
          (case map_of kvs k1 of Some (JObj ps) \<Rightarrow> map_of ps k2 = Some v | _ \<Rightarrow> False)
      | _ \<Rightarrow> False)"

section \<open>Concrete inputs\<close>

text \<open>A renderer for values that are not strings, used where the text of such a value does not matter.\<close>

definition plain_render :: "json \<Rightarrow> string" where
  "plain_render v = ''?''"

text \<open>A network that answers every request the same way.\<close>

definition always :: "http_outcome \<Rightarrow> network" where
  "always outcome calls u = outcome"

text \<open>A network that answers the first request with one document and every later one with another.\<close>

definition first_then :: "json \<Rightarrow> json \<Rightarrow> network" where
  "first_then a b calls u = (if calls = [] then Response 200 (Some a) else Response 200 (Some b))"

definition origin :: pyfloat where
  "origin = Finite False 0 0"

definition flood_feature :: json where
  "flood_feature =
     JObj [(''properties'', JObj [(''event'', JStr ''Flood Warning''), (''areaDesc'', JStr ''XX County'')])]"

definition heat_feature :: json where
  "heat_feature =
     JObj [(''properties'', JObj [(''event'', JStr ''Heat Advisory''), (''severity'', JStr ''Moderate'')])]"

text \<open>The texts expected for the two features, character by character.\<close>

definition flood_block :: string where
  "flood_block =
     ''\<newline>Event: Flood Warning\<newline>Area: XX County\<newline>Severity: Unknown''
       @ ''\<newline>Description: No description available''
       @ ''\<newline>Instructions: No specific instructions provided\<newline>''"

definition heat_block :: string where
  "heat_block =
     ''\<newline>Event: Heat Advisory\<newline>Area: Unknown\<newline>Severity: Moderate''
       @ ''\<newline>Description: No description available''
       @ ''\<newline>Instructions: No specific instructions provided\<newline>''"

definition alerts_response :: "json list \<Rightarrow> json" where
  "alerts_response fs = JObj [(''features'', JArr fs)]"

definition points_response :: json where
  "points_response = JObj [(''properties'', JObj [(''forecast'', JStr ''U'')])]"

definition forecast_response :: "json list \<Rightarrow> json" where
  "forecast_response ps = JObj [(''properties'', JObj [(''periods'', JArr ps)])]"

definition period_named :: "string \<Rightarrow> json" where
  "period_named n =
     JObj [(''name'', JStr n), (''temperature'', JInt 72), (''temperatureUnit'', JStr ''F''),
           (''windSpeed'', JStr ''5 mph''), (''windDirection'', JStr ''NW''),
           (''detailedForecast'', JStr ''Clear.'')]"

definition period_block :: "string \<Rightarrow> string" where
  "period_block n =
     ''\<newline>'' @ n @ ''\<newline>Temperature: 72'' @ [CHR 0xC2, CHR 0xB0]
       @ ''F\<newline>Wind: 5 mph NW\<newline>Forecast: Clear.\<newline>''"

text \<open>A period record without \<^verbatim>\<open>temperature\<close>.\<close>

definition period_without_temperature :: json where
  "period_without_temperature =
     JObj [(''name'', JStr ''P2''), (''temperatureUnit'', JStr ''F''),
           (''windSpeed'', JStr ''5 mph''), (''windDirection'', JStr ''NW''),
           (''detailedForecast'', JStr ''Clear.'')]"

definition seven_periods :: "json list" where
  "seven_periods = map period_named [''P1'', ''P2'', ''P3'', ''P4'', ''P5'', ''P6'', ''P7'']"

section \<open>Facts about the operations\<close>

lemma snd_make_nws_request: "snd (make_nws_request net calls url) = calls @ [url]"
  by (simp add: make_nws_request_def)

lemma py_map_list_all_ok: "map f xs = map Inr ys \<Longrightarrow> py_map_list f xs = Inr ys"
  by (induction xs arbitrary: ys) auto

lemma py_map_list_raises:
  "x \<in> set xs \<Longrightarrow> f x = Inl e \<Longrightarrow> \<exists>e'. py_map_list f xs = Inl e'"
proof (induction xs)
  case Nil
  then show ?case by simp
next
  case (Cons a xs)
  show ?case
  proof (cases "f a")
    case (Inl e0)
    then show ?thesis by simp
  next
    case (Inr y)
    with Cons obtain e' where "py_map_list f xs = Inl e'" by auto
    with Inr show ?thesis by simp
  qed
qed

lemma py_map_list_find:
  "py_map_list f xs =
     (case find (\<lambda>x. isl (f x)) xs of
        Some x \<Rightarrow> Inl (projl (f x))
      | None \<Rightarrow> Inr (map (\<lambda>x. projr (f x)) xs))"
proof (induction xs)
  case Nil
  show ?case by simp
next
  case (Cons a xs)
  then show ?case by (cases "f a") (simp_all split: option.splits)
qed

lemma join_separator: "join separator bs = spec_separated bs"
  by (induction separator bs rule: join.induct)
     (simp_all add: spec_separated_def separator_def newline_def)

lemma format_alert_block:
  "map_of kvs ''properties'' = Some (JObj ps) \<Longrightarrow>
   format_alert r (JObj kvs) =
     Inr (spec_alert_block (spec_field r ps ''event'' ''Unknown'')
            (spec_field r ps ''areaDesc'' ''Unknown'')
            (spec_field r ps ''severity'' ''Unknown'')
            (spec_field r ps ''description'' ''No description available'')
            (spec_field r ps ''instruction'' ''No specific instructions provided''))"
  by (simp add: format_alert_def spec_alert_block_def spec_field_def split: option.splits)

lemma is_alert_featureD:
  assumes "is_alert_feature f"
  shows "\<exists>kvs ps. f = JObj kvs \<and> map_of kvs ''properties'' = Some (JObj ps)"
proof (cases f)
  case (JObj kvs)
  show ?thesis
  proof (cases "map_of kvs ''properties''")
    case None
    with assms JObj show ?thesis by (simp add: is_alert_feature_def)
  next
    case (Some v)
    with assms JObj show ?thesis by (cases v) (simp_all add: is_alert_feature_def)
  qed
qed (use assms in \<open>simp_all add: is_alert_feature_def\<close>)

lemma is_alert_feature_formats: "is_alert_feature f \<Longrightarrow> \<exists>s. format_alert r f = Inr s"
  using is_alert_featureD [of f] format_alert_block by fastforce

lemma all_features_format:
  "list_all is_alert_feature fs \<Longrightarrow> \<exists>blocks. map (format_alert r) fs = map Inr blocks"
proof (induction fs)
  case Nil
  then show ?case by simp
next
  case (Cons f fs)
  then obtain s blocks where "format_alert r f = Inr s" "map (format_alert r) fs = map Inr blocks"
    using is_alert_feature_formats by fastforce
  then have "map (format_alert r) (f # fs) = map Inr (s # blocks)" by simp
  then show ?case by blast
qed

lemma is_period_record_formats: "is_period_record p \<Longrightarrow> \<exists>s. format_period r p = Inr s"
  by (auto simp: is_period_record_def period_fields_def format_period_def split: json.splits)

lemma all_periods_format:
  "list_all is_period_record ps \<Longrightarrow> \<exists>blocks. map (format_period r) ps = map Inr blocks"
proof (induction ps)
  case Nil
  then show ?case by simp
next
  case (Cons p ps)
  then obtain s blocks where "format_period r p = Inr s" "map (format_period r) ps = map Inr blocks"
    using is_period_record_formats by fastforce
  then have "map (format_period r) (p # ps) = map Inr (s # blocks)" by simp
  then show ?case by blast
qed

lemma lacks_period_field_raises: "lacks_period_field p \<Longrightarrow> format_period r p = Inl KeyError"
  by (auto simp: lacks_period_field_def period_fields_def format_period_def
      split: json.splits option.splits)

section \<open>The fetch helper\<close>

text \<open>
  Claim C3: for every URL, \<^verbatim>\<open>make_nws_request\<close> returns the parsed body of a 2xx
  response, and returns \<^verbatim>\<open>None\<close> when the request raises (a network error, a timeout),
  when the status is not 2xx and when the body is not JSON; no error reaches the caller.
\<close>

theorem make_nws_request_result:
  "(net calls u = Response status (Some j) \<and> 200 \<le> status \<and> status \<le> 299
      \<longrightarrow> fst (make_nws_request net calls (JStr u)) = j)
   \<and> (net calls u = Raises e \<longrightarrow> fst (make_nws_request net calls (JStr u)) = JNull)
   \<and> (net calls u = Response status body \<and> \<not> (200 \<le> status \<and> status \<le> 299)
      \<longrightarrow> fst (make_nws_request net calls (JStr u)) = JNull)
   \<and> (net calls u = Response status None \<longrightarrow> fst (make_nws_request net calls (JStr u)) = JNull)"
  by (simp add: make_nws_request_def request_body_def raise_for_status_def res_json_def)

theorem make_nws_request_result_witness:
  "fst (make_nws_request (always (Response 200 (Some (JObj [(''a'', JInt 1)])))) [] (JStr ''u''))
      = JObj [(''a'', JInt 1)]
   \<and> fst (make_nws_request (always (Raises TimeoutException)) [] (JStr ''u'')) = JNull
   \<and> fst (make_nws_request (always (Response 404 (Some (JObj [])))) [] (JStr ''u'')) = JNull
   \<and> fst (make_nws_request (always (Response 200 None)) [] (JStr ''u'')) = JNull"
  using
    make_nws_request_result [of "always (Response 200 (Some (JObj [(''a'', JInt 1)])))" "[]" "''u''"
      200 "JObj [(''a'', JInt 1)]" TimeoutException None]
    make_nws_request_result [of "always (Raises TimeoutException)" "[]" "''u''"
      200 JNull TimeoutException None]
    make_nws_request_result [of "always (Response 404 (Some (JObj [])))" "[]" "''u''"
      404 JNull TimeoutException "Some (JObj [])"]
    make_nws_request_result [of "always (Response 200 None)" "[]" "''u''"
      200 JNull TimeoutException None]
  by (simp add: always_def)

section \<open>Facts about the concrete inputs\<close>

lemma fetch_always:
  "fst (make_nws_request (always (Response 200 (Some j))) calls (JStr u)) = j"
  by (simp add: make_nws_request_def request_body_def raise_for_status_def res_json_def always_def)

lemma fetch_first:
  "fst (make_nws_request (first_then a b) [] (JStr u)) = a"
  by (simp add: make_nws_request_def request_body_def raise_for_status_def res_json_def first_then_def)

lemma str_int_72: "str_int 72 = ''72''"
  by code_simp

lemma format_period_named: "format_period r (period_named n) = Inr (period_block n)"
  by (simp add: format_period_def period_named_def period_block_def str_int_72 newline_def degree_def)

lemma format_flood: "format_alert r flood_feature = Inr flood_block"
  by (simp add: format_alert_def flood_feature_def flood_block_def newline_def)

lemma format_heat: "format_alert r heat_feature = Inr heat_block"
  by (simp add: format_alert_def heat_feature_def heat_block_def newline_def)


section \<open>The alert formatter and \<^verbatim>\<open>get_alerts\<close>\<close>

lemma fst_get_alerts:
  "fst (make_nws_request net calls (JStr (alerts_url state))) = data \<Longrightarrow>
   fst (get_alerts r net calls state) =
     (if \<not> truthy data then Inr ''Unable to fetch alerts or no alerts found.''
      else bind_err (py_in ''features'' data) (\<lambda>present.
        if \<not> present then Inr ''Unable to fetch alerts or no alerts found.''
        else bind_err (py_getitem data ''features'') (\<lambda>features.
          if \<not> truthy features then Inr ''No active alerts for this state.''
          else bind_err (py_iter features) (\<lambda>fs.
               bind_err (py_map_list (format_alert r) fs) (\<lambda>alerts.
                 Inr (join separator alerts))))))"
  by (auto simp: get_alerts_def case_prod_unfold Let_def)

text \<open>
  Claim C5: \<^verbatim>\<open>get_alerts\<close> answers ``Unable to fetch alerts or no alerts found.'' when the
  fetch result is absent or is an object without the key \<^verbatim>\<open>features\<close>, and answers exactly
  ``No active alerts for this state.'' when \<^verbatim>\<open>features\<close> is present and empty; the two
  messages are different strings.
\<close>

theorem get_alerts_messages:
  "(fst (make_nws_request net calls (JStr (alerts_url state))) = JNull
      \<longrightarrow> fst (get_alerts r net calls state) = Inr ''Unable to fetch alerts or no alerts found.'')
   \<and> (fst (make_nws_request net calls (JStr (alerts_url state))) = JObj kvs
        \<and> map_of kvs ''features'' = None
      \<longrightarrow> fst (get_alerts r net calls state) = Inr ''Unable to fetch alerts or no alerts found.'')
   \<and> (fst (make_nws_request net calls (JStr (alerts_url state))) = JObj kvs
        \<and> map_of kvs ''features'' = Some (JArr [])
      \<longrightarrow> fst (get_alerts r net calls state) = Inr ''No active alerts for this state.'')
   \<and> ''Unable to fetch alerts or no alerts found.'' \<noteq> ''No active alerts for this state.''"
  by (auto simp: fst_get_alerts)

text \<open>
  Claim C6: when the \<^verbatim>\<open>features\<close> sequence of the fetch result is not empty,
  \<^verbatim>\<open>get_alerts\<close> applies \<^verbatim>\<open>format_alert\<close> to every feature, in order, and returns the
  blocks joined by the separator line, a line feed, three hyphens and a line feed; the
  first feature on which \<^verbatim>\<open>format_alert\<close> raises, if there is one, ends the call with
  its error. For two features with blocks \<open>b1\<close> and \<open>b2\<close> the result is \<open>b1\<close>, the
  separator, \<open>b2\<close>.
\<close>

theorem get_alerts_joins_blocks:
  assumes "fst (make_nws_request net calls (JStr (alerts_url state))) = JObj kvs"
    and "map_of kvs ''features'' = Some (JArr fs)"
    and "fs \<noteq> []"
  shows "fst (get_alerts r net calls state) =
     (case find (\<lambda>f. isl (format_alert r f)) fs of
        Some f \<Rightarrow> Inl (projl (format_alert r f))
      | None \<Rightarrow> Inr (spec_separated (map (\<lambda>f. projr (format_alert r f)) fs)))
    \<and> (\<forall>f1 f2 b1 b2.
          fs = [f1, f2] \<and> format_alert r f1 = Inr b1 \<and> format_alert r f2 = Inr b2 \<longrightarrow>
          fst (get_alerts r net calls state) = Inr (b1 @ ''\<newline>---\<newline>'' @ b2))"
proof -
  have "kvs \<noteq> []" using assms(2) by auto
  then have run: "fst (get_alerts r net calls state) =
      bind_err (py_map_list (format_alert r) fs) (\<lambda>alerts. Inr (join separator alerts))"
    using assms by (simp add: fst_get_alerts)
  have general: "fst (get_alerts r net calls state) =
     (case find (\<lambda>f. isl (format_alert r f)) fs of
        Some f \<Rightarrow> Inl (projl (format_alert r f))
      | None \<Rightarrow> Inr (spec_separated (map (\<lambda>f. projr (format_alert r f)) fs)))"
    unfolding run by (simp add: py_map_list_find join_separator split: option.splits)
  have two: "fst (get_alerts r net calls state) = Inr (b1 @ ''\<newline>---\<newline>'' @ b2)"
    if "fs = [f1, f2] \<and> format_alert r f1 = Inr b1 \<and> format_alert r f2 = Inr b2"
    for f1 f2 b1 b2
    unfolding general using that by (simp add: spec_separated_def)
  from general two show ?thesis by blast
qed

text \<open>
  Claim C1, amended: \<^verbatim>\<open>get_alerts\<close> returns a string, and raises nothing, whenever the
  fetch result is absent, or is an object without the key \<^verbatim>\<open>features\<close>, or one whose
  \<^verbatim>\<open>features\<close> is empty (falsy), or one whose \<^verbatim>\<open>features\<close> is a list of alert-feature
  records, each an object with a \<^verbatim>\<open>properties\<close> object.
\<close>

theorem get_alerts_returns_string:
  assumes "fst (make_nws_request net calls (JStr (alerts_url state))) = data"
    and "data = JNull \<or>
         (\<exists>kvs. data = JObj kvs \<and>
            (case map_of kvs ''features'' of
               None \<Rightarrow> True
             | Some v \<Rightarrow> \<not> truthy v \<or> (\<exists>fs. v = JArr fs \<and> list_all is_alert_feature fs)))"
  shows "\<exists>s. fst (get_alerts r net calls state) = Inr s"
  using assms(2)
proof (elim disjE exE conjE)
  assume "data = JNull"
  then show ?thesis using assms(1) by (simp add: fst_get_alerts)
next
  fix kvs
  assume d: "data = JObj kvs"
    and c: "case map_of kvs ''features'' of None \<Rightarrow> True
            | Some v \<Rightarrow> \<not> truthy v \<or> (\<exists>fs. v = JArr fs \<and> list_all is_alert_feature fs)"
  show ?thesis
  proof (cases "map_of kvs ''features''")
    case None
    then show ?thesis using assms(1) d by (simp add: fst_get_alerts)
  next
    case (Some v)
    then have ne: "kvs \<noteq> []" by auto
    show ?thesis
    proof (cases "truthy v")
      case False
      then show ?thesis using assms(1) d Some ne by (simp add: fst_get_alerts)
    next
      case True
      with c Some obtain fs where v: "v = JArr fs" and wf: "list_all is_alert_feature fs" by auto
      from all_features_format [OF wf] obtain blocks
        where "map (format_alert r) fs = map Inr blocks" by blast
      then have "py_map_list (format_alert r) fs = Inr blocks" by (rule py_map_list_all_ok)
      then show ?thesis using assms(1) d Some ne True v by (simp add: fst_get_alerts)
    qed
  qed
qed

text \<open>
  Claim C2: on every alert-feature record (an object whose \<^verbatim>\<open>properties\<close> is an object)
  \<^verbatim>\<open>format_alert\<close> returns, without raising, the block of the five labelled fields;
  each field shows its own value, or its placeholder when its key is absent, whatever the
  other keys are.
\<close>

theorem format_alert_total:
  assumes "map_of kvs ''properties'' = Some (JObj ps)"
  shows "format_alert r (JObj kvs) =
     Inr (spec_alert_block (spec_field r ps ''event'' ''Unknown'')
            (spec_field r ps ''areaDesc'' ''Unknown'')
            (spec_field r ps ''severity'' ''Unknown'')
            (spec_field r ps ''description'' ''No description available'')
            (spec_field r ps ''instruction'' ''No specific instructions provided''))"
  using assms by (rule format_alert_block)

text \<open>
  As first stated, for every fetch result, the guarantee does not hold: a response whose
  only feature is the empty object makes \<^verbatim>\<open>format_alert\<close> raise \<^verbatim>\<open>KeyError\<close>, and
  \<^verbatim>\<open>get_alerts\<close> with it.
\<close>

theorem get_alerts_raises_counterexample:
  "fst (make_nws_request (always (Response 200 (Some (alerts_response [JObj []])))) []
          (JStr (alerts_url ''OH''))) = alerts_response [JObj []]
   \<and> fst (get_alerts plain_render (always (Response 200 (Some (alerts_response [JObj []])))) [] ''OH'')
       = Inl KeyError"
  by (simp add: fetch_always fst_get_alerts [OF fetch_always] alerts_response_def format_alert_def)

theorem get_alerts_returns_string_witness:
  "\<exists>s. fst (get_alerts plain_render (always (Response 200 (Some (alerts_response [flood_feature])))) []
            ''XX'') = Inr s"
proof (rule get_alerts_returns_string [OF fetch_always])
  have "is_alert_feature flood_feature"
    by (simp add: is_alert_feature_def flood_feature_def)
  then show "alerts_response [flood_feature] = JNull \<or>
    (\<exists>kvs. alerts_response [flood_feature] = JObj kvs \<and>
       (case map_of kvs ''features'' of None \<Rightarrow> True
        | Some v \<Rightarrow> \<not> truthy v \<or> (\<exists>fs. v = JArr fs \<and> list_all is_alert_feature fs)))"
    by (simp add: alerts_response_def)
qed

text \<open>A record that omits \<^verbatim>\<open>severity\<close>, \<^verbatim>\<open>description\<close> and \<^verbatim>\<open>instruction\<close>.\<close>

theorem format_alert_total_witness:
  "format_alert plain_render flood_feature = Inr flood_block"
  using format_alert_total [of "[(''properties'', JObj [(''event'', JStr ''Flood Warning''), (''areaDesc'', JStr ''XX County'')])]"
      "[(''event'', JStr ''Flood Warning''), (''areaDesc'', JStr ''XX County'')]" plain_render]
  by (simp add: flood_feature_def flood_block_def spec_alert_block_def spec_field_def newline_def)

theorem get_alerts_messages_witness:
  "fst (get_alerts plain_render (always (Raises TimeoutException)) [] ''OH'')
      = Inr ''Unable to fetch alerts or no alerts found.''
   \<and> fst (get_alerts plain_render (always (Response 200 (Some (JObj [(''title'', JStr ''x'')])))) [] ''OH'')
      = Inr ''Unable to fetch alerts or no alerts found.''
   \<and> fst (get_alerts plain_render (always (Response 200 (Some (alerts_response [])))) [] ''OH'')
      = Inr ''No active alerts for this state.''"
proof -
  have a: "fst (make_nws_request (always (Raises TimeoutException)) [] (JStr (alerts_url ''OH''))) = JNull"
    by (simp add: make_nws_request_def request_body_def always_def)
  have b: "map_of [(''title'', JStr ''x'')] ''features'' = None" by simp
  have c: "map_of [(''features'', JArr [])] ''features'' = Some (JArr [])" by simp
  show ?thesis
    using get_alerts_messages [of "always (Raises TimeoutException)" "[]" "''OH''" plain_render "[]"] a
      get_alerts_messages [of "always (Response 200 (Some (JObj [(''title'', JStr ''x'')])))" "[]" "''OH''"
         plain_render "[(''title'', JStr ''x'')]"] b
      get_alerts_messages [of "always (Response 200 (Some (alerts_response [])))" "[]" "''OH''"
         plain_render "[(''features'', JArr [])]"] c
    by (simp add: fetch_always alerts_response_def)
qed

theorem get_alerts_joins_blocks_witness:
  "fst (get_alerts plain_render (always (Response 200 (Some (alerts_response [flood_feature, heat_feature]))))
         [] ''XX'') = Inr (flood_block @ ''\<newline>---\<newline>'' @ heat_block)
   \<and> fst (get_alerts plain_render
         (always (Response 200 (Some (alerts_response [heat_feature, flood_feature, heat_feature]))))
         [] ''XX'')
       = Inr (heat_block @ ''\<newline>---\<newline>'' @ flood_block @ ''\<newline>---\<newline>'' @ heat_block)
   \<and> fst (get_alerts plain_render (always (Response 200 (Some (alerts_response [flood_feature]))))
         [] ''XX'') = Inr flood_block
   \<and> fst (get_alerts plain_render (always (Response 200 (Some (alerts_response [flood_feature, JInt 3]))))
         [] ''XX'') = Inl TypeError"
proof -
  have a: "fst (make_nws_request (always (Response 200 (Some (alerts_response fs))))
         [] (JStr (alerts_url ''XX''))) = JObj [(''features'', JArr fs)]" for fs
    by (simp add: fetch_always alerts_response_def)
  have b: "map_of [(''features'', JArr fs)] ''features'' = Some (JArr fs)" for fs :: "json list"
    by simp
  have bad: "format_alert plain_render (JInt 3) = Inl TypeError"
    by (simp add: format_alert_def)
  have "fst (get_alerts plain_render (always (Response 200 (Some (alerts_response [flood_feature, heat_feature]))))
         [] ''XX'') = Inr (flood_block @ ''\<newline>---\<newline>'' @ heat_block)"
    using get_alerts_joins_blocks [OF a b, of "[flood_feature, heat_feature]" plain_render]
    by (simp add: format_flood format_heat spec_separated_def)
  moreover have "fst (get_alerts plain_render
         (always (Response 200 (Some (alerts_response [heat_feature, flood_feature, heat_feature]))))
         [] ''XX'')
       = Inr (heat_block @ ''\<newline>---\<newline>'' @ flood_block @ ''\<newline>---\<newline>'' @ heat_block)"
    using get_alerts_joins_blocks [OF a b, of "[heat_feature, flood_feature, heat_feature]" plain_render]
    by (simp add: format_flood format_heat spec_separated_def)
  moreover have "fst (get_alerts plain_render (always (Response 200 (Some (alerts_response [flood_feature]))))
         [] ''XX'') = Inr flood_block"
    using get_alerts_joins_blocks [OF a b, of "[flood_feature]" plain_render]
    by (simp add: format_flood spec_separated_def)
  moreover have "fst (get_alerts plain_render
         (always (Response 200 (Some (alerts_response [flood_feature, JInt 3]))))
         [] ''XX'') = Inl TypeError"
    using get_alerts_joins_blocks [OF a b, of "[flood_feature, JInt 3]" plain_render]
    by (simp add: format_flood bad)
  ultimately show ?thesis by blast
qed

section \<open>\<^verbatim>\<open>get_forecast\<close>\<close>

lemma has_nestedD:
  assumes "has_nested d k1 k2 v"
  shows "\<exists>kvs ps. d = JObj kvs \<and> map_of kvs k1 = Some (JObj ps) \<and> map_of ps k2 = Some v"
proof (cases d)
  case (JObj kvs)
  show ?thesis
  proof (cases "map_of kvs k1")
    case None
    with assms JObj show ?thesis by (simp add: has_nested_def)
  next
    case (Some w)
    with assms JObj show ?thesis by (cases w) (simp_all add: has_nested_def)
  qed
qed (use assms in \<open>simp_all add: has_nested_def\<close>)

lemma has_nested_passes:
  assumes "has_nested d k1 k2 v"
  shows "truthy d" and "missing_nested d k1 k2 = Inr False"
    and "bind_err (py_getitem d k1) (\<lambda>props. py_getitem props k2) = Inr v"
proof -
  from has_nestedD [OF assms] obtain kvs ps
    where d: "d = JObj kvs" "map_of kvs k1 = Some (JObj ps)" "map_of ps k2 = Some v" by blast
  then have "kvs \<noteq> []" by auto
  with d show "truthy d" by simp
  from d show "missing_nested d k1 k2 = Inr False" by (simp add: missing_nested_def)
  from d show "bind_err (py_getitem d k1) (\<lambda>props. py_getitem props k2) = Inr v" by simp
qed

lemma object_lacks_fails:
  assumes "object_lacks d k1 k2"
  shows "truthy d" and "missing_nested d k1 k2 = Inr True"
proof -
  from assms obtain kvs where d: "d = JObj kvs" "kvs \<noteq> []"
    by (cases d) (simp_all add: object_lacks_def)
  then show "truthy d" by simp
  show "missing_nested d k1 k2 = Inr True"
  proof (cases "map_of kvs k1")
    case None
    with d show ?thesis by (simp add: missing_nested_def)
  next
    case (Some w)
    with assms d show ?thesis
      by (cases w) (simp_all add: object_lacks_def missing_nested_def)
  qed
qed

lemma snd_fetch_forecast: "snd (fetch_forecast r net calls1 url) = calls1 @ [url]"
  by (simp add: fetch_forecast_def case_prod_unfold Let_def snd_make_nws_request)

lemma fst_fetch_forecast:
  "fst (make_nws_request net calls1 url) = forecast_data \<Longrightarrow>
   fst (fetch_forecast r net calls1 url) =
     (if \<not> truthy forecast_data then Inr ''Unable to fetch forecast data for this location.''
      else bind_err (missing_nested forecast_data ''properties'' ''periods'') (\<lambda>missing.
        if missing then Inr ''Invalid forecast data received: missing period information.''
        else format_forecast r forecast_data))"
  by (auto simp: fetch_forecast_def case_prod_unfold Let_def)

lemma get_forecast_unfetched:
  "\<not> truthy (fst (make_nws_request net calls (JStr (points_url r la lo)))) \<Longrightarrow>
   get_forecast r net calls la lo =
     (Inr ''Unable to fetch points data for this location.'', calls @ [JStr (points_url r la lo)])"
  by (simp add: get_forecast_def case_prod_unfold Let_def snd_make_nws_request)

lemma get_forecast_invalid:
  assumes "object_lacks (fst (make_nws_request net calls (JStr (points_url r la lo)))) ''properties'' ''forecast''"
  shows "get_forecast r net calls la lo =
     (Inr ''Invalid points data received: missing forecast information.'',
      calls @ [JStr (points_url r la lo)])"
  using object_lacks_fails [OF assms]
  by (simp add: get_forecast_def case_prod_unfold Let_def snd_make_nws_request)

lemma get_forecast_second_stage:
  assumes "has_nested (fst (make_nws_request net calls (JStr (points_url r la lo)))) ''properties'' ''forecast'' url"
  shows "get_forecast r net calls la lo =
     fetch_forecast r net (calls @ [JStr (points_url r la lo)]) url"
  using has_nested_passes [OF assms]
  by (simp add: get_forecast_def case_prod_unfold Let_def snd_make_nws_request)

lemma format_forecast_periods:
  assumes "has_nested d ''properties'' ''periods'' (JArr periods)"
  shows "format_forecast r d =
     bind_err (py_map_list (format_period r) (take 5 periods)) (\<lambda>forecasts. Inr (join separator forecasts))"
proof -
  from has_nestedD [OF assms] obtain kvs ps
    where "d = JObj kvs" "map_of kvs ''properties'' = Some (JObj ps)"
      "map_of ps ''periods'' = Some (JArr periods)" by blast
  then show ?thesis by (simp add: format_forecast_def periods_count_def)
qed

lemma get_forecast_validated:
  assumes "has_nested (fst (make_nws_request net calls (JStr (points_url r la lo)))) ''properties'' ''forecast'' url"
    and "has_nested (fst (make_nws_request net (calls @ [JStr (points_url r la lo)]) url)) ''properties'' ''periods'' (JArr periods)"
  shows "fst (get_forecast r net calls la lo) =
     bind_err (py_map_list (format_period r) (take 5 periods)) (\<lambda>forecasts. Inr (join separator forecasts))"
  unfolding get_forecast_second_stage [OF assms(1)] fst_fetch_forecast [OF refl]
  using has_nested_passes(1,2) [OF assms(2)] format_forecast_periods [OF assms(2)]
  by simp

text \<open>
  Claim C4, amended: \<^verbatim>\<open>get_forecast\<close> answers ``Unable to fetch points data for this
  location.'' when the points fetch result is absent or any other falsy value, the empty
  object included; ``Invalid points data received: missing forecast information.'' when it
  is a non-empty object without \<^verbatim>\<open>properties\<close>, or whose \<^verbatim>\<open>properties\<close> is an object
  without \<^verbatim>\<open>forecast\<close>. After a points response that has \<^verbatim>\<open>properties.forecast\<close>, it
  answers ``Unable to fetch forecast data for this location.'' when the second fetch
  result is absent or falsy, and ``Invalid forecast data received: missing period
  information.'' when that result is a non-empty object without \<^verbatim>\<open>properties\<close>, or whose
  \<^verbatim>\<open>properties\<close> is an object without \<^verbatim>\<open>periods\<close>.
\<close>

theorem get_forecast_messages:
  "(\<not> truthy (fst (make_nws_request net calls (JStr (points_url r la lo))))
      \<longrightarrow> fst (get_forecast r net calls la lo) = Inr ''Unable to fetch points data for this location.'')
   \<and> (object_lacks (fst (make_nws_request net calls (JStr (points_url r la lo)))) ''properties'' ''forecast''
      \<longrightarrow> fst (get_forecast r net calls la lo)
            = Inr ''Invalid points data received: missing forecast information.'')
   \<and> (has_nested (fst (make_nws_request net calls (JStr (points_url r la lo)))) ''properties'' ''forecast'' url
        \<and> \<not> truthy (fst (make_nws_request net (calls @ [JStr (points_url r la lo)]) url))
      \<longrightarrow> fst (get_forecast r net calls la lo) = Inr ''Unable to fetch forecast data for this location.'')
   \<and> (has_nested (fst (make_nws_request net calls (JStr (points_url r la lo)))) ''properties'' ''forecast'' url
        \<and> object_lacks (fst (make_nws_request net (calls @ [JStr (points_url r la lo)]) url)) ''properties'' ''periods''
      \<longrightarrow> fst (get_forecast r net calls la lo)
            = Inr ''Invalid forecast data received: missing period information.'')"
proof (intro conjI impI)
  assume a: "\<not> truthy (fst (make_nws_request net calls (JStr (points_url r la lo))))"
  show "fst (get_forecast r net calls la lo) = Inr ''Unable to fetch points data for this location.''"
    unfolding get_forecast_unfetched [OF a] by simp
next
  assume a: "object_lacks (fst (make_nws_request net calls (JStr (points_url r la lo)))) ''properties'' ''forecast''"
  show "fst (get_forecast r net calls la lo)
            = Inr ''Invalid points data received: missing forecast information.''"
    unfolding get_forecast_invalid [OF a] by simp
next
  assume a: "has_nested (fst (make_nws_request net calls (JStr (points_url r la lo)))) ''properties'' ''forecast'' url
        \<and> \<not> truthy (fst (make_nws_request net (calls @ [JStr (points_url r la lo)]) url))"
  then have s: "get_forecast r net calls la lo
      = fetch_forecast r net (calls @ [JStr (points_url r la lo)]) url"
    by (intro get_forecast_second_stage) simp
  from a show "fst (get_forecast r net calls la lo) = Inr ''Unable to fetch forecast data for this location.''"
    unfolding s fst_fetch_forecast [OF refl] by simp
next
  assume a: "has_nested (fst (make_nws_request net calls (JStr (points_url r la lo)))) ''properties'' ''forecast'' url
        \<and> object_lacks (fst (make_nws_request net (calls @ [JStr (points_url r la lo)]) url)) ''properties'' ''periods''"
  then have s: "get_forecast r net calls la lo
      = fetch_forecast r net (calls @ [JStr (points_url r la lo)]) url"
    by (intro get_forecast_second_stage) simp
  from a have l: "object_lacks (fst (make_nws_request net (calls @ [JStr (points_url r la lo)]) url)) ''properties'' ''periods''"
    by simp
  show "fst (get_forecast r net calls la lo)
            = Inr ''Invalid forecast data received: missing period information.''"
    unfolding s fst_fetch_forecast [OF refl] using object_lacks_fails [OF l] by simp
qed

text \<open>
  Claim C7: on the validated path, with period records that carry their six fields,
  \<^verbatim>\<open>get_forecast\<close> formats the first five entries of \<^verbatim>\<open>periods\<close> and no other, in the
  order given, and joins the blocks by the separator line, a line feed, three hyphens and
  a line feed; a sequence of fewer than five entries is used whole, without an error.
\<close>

theorem get_forecast_first_five:
  assumes "has_nested (fst (make_nws_request net calls (JStr (points_url r la lo)))) ''properties'' ''forecast'' url"
    and "has_nested (fst (make_nws_request net (calls @ [JStr (points_url r la lo)]) url)) ''properties'' ''periods'' (JArr periods)"
    and "list_all is_period_record (take 5 periods)"
  shows "\<exists>blocks. map (format_period r) (take 5 periods) = map Inr blocks
           \<and> length blocks = min 5 (length periods)
           \<and> fst (get_forecast r net calls la lo) = Inr (spec_separated blocks)"
proof -
  from all_periods_format [OF assms(3)] obtain blocks
    where b: "map (format_period r) (take 5 periods) = map Inr blocks" by blast
  then have "py_map_list (format_period r) (take 5 periods) = Inr blocks"
    by (rule py_map_list_all_ok)
  then have r: "fst (get_forecast r net calls la lo) = Inr (spec_separated blocks)"
    unfolding get_forecast_validated [OF assms(1,2)] by (simp add: join_separator)
  from arg_cong [OF b, of length] have "length blocks = min 5 (length periods)"
    by (simp add: min.commute)
  with b r show ?thesis by blast
qed

text \<open>
  Claim C8, amended: when one of the first five period records lacks one of its six
  fields, \<^verbatim>\<open>get_forecast\<close> returns no string at all, error message or other: the access
  raises and the error leaves the tool. Nothing is said of this being the only case that
  raises.
\<close>

theorem get_forecast_missing_field_raises:
  assumes "has_nested (fst (make_nws_request net calls (JStr (points_url r la lo)))) ''properties'' ''forecast'' url"
    and "has_nested (fst (make_nws_request net (calls @ [JStr (points_url r la lo)]) url)) ''properties'' ''periods'' (JArr periods)"
    and "list_ex lacks_period_field (take 5 periods)"
  shows "\<exists>e. fst (get_forecast r net calls la lo) = Inl e"
proof -
  from assms(3) obtain p where p: "p \<in> set (take 5 periods)" and l: "lacks_period_field p"
    unfolding list_ex_iff by blast
  have "format_period r p = Inl KeyError"
    using l by (rule lacks_period_field_raises)
  from py_map_list_raises [of p "take 5 periods" "format_period r" KeyError, OF p this]
  obtain e where "py_map_list (format_period r) (take 5 periods) = Inl e" ..
  then show ?thesis unfolding get_forecast_validated [OF assms(1,2)] by simp
qed

text \<open>
  Claim C9: when the points response has the string \<open>u\<close> under
  \<^verbatim>\<open>properties.forecast\<close>, \<^verbatim>\<open>get_forecast\<close> makes exactly two requests, and the second
  goes to \<open>u\<close>, unchanged.
\<close>

theorem get_forecast_second_fetch:
  assumes "has_nested (fst (make_nws_request net calls (JStr (points_url r la lo)))) ''properties'' ''forecast'' (JStr u)"
  shows "snd (get_forecast r net calls la lo) = calls @ [JStr (points_url r la lo), JStr u]"
  unfolding get_forecast_second_stage [OF assms] snd_fetch_forecast by simp

text \<open>
  Claim C10: a fetch that succeeds with the empty object is answered as a failed fetch is.
  \<^verbatim>\<open>get_forecast\<close> returns ``Unable to fetch points data for this location.'', not the
  message of the validation stage, and \<^verbatim>\<open>get_alerts\<close> returns ``Unable to fetch alerts
  or no alerts found.''; both are what the tools return when the fetch gives nothing.
\<close>

theorem empty_object_as_failed_fetch:
  "(fst (make_nws_request net calls (JStr (points_url r la lo))) = JObj []
      \<and> fst (make_nws_request net' calls (JStr (points_url r la lo))) = JNull
      \<longrightarrow> fst (get_forecast r net calls la lo) = Inr ''Unable to fetch points data for this location.''
        \<and> fst (get_forecast r net calls la lo)
            \<noteq> Inr ''Invalid points data received: missing forecast information.''
        \<and> fst (get_forecast r net calls la lo) = fst (get_forecast r net' calls la lo))
   \<and> (fst (make_nws_request net calls (JStr (alerts_url state))) = JObj []
      \<and> fst (make_nws_request net' calls (JStr (alerts_url state))) = JNull
      \<longrightarrow> fst (get_alerts r net calls state) = Inr ''Unable to fetch alerts or no alerts found.''
        \<and> fst (get_alerts r net calls state) = fst (get_alerts r net' calls state))"
proof (intro conjI impI)
  assume a: "fst (make_nws_request net calls (JStr (points_url r la lo))) = JObj []
      \<and> fst (make_nws_request net' calls (JStr (points_url r la lo))) = JNull"
  then have "\<not> truthy (fst (make_nws_request net calls (JStr (points_url r la lo))))"
    and "\<not> truthy (fst (make_nws_request net' calls (JStr (points_url r la lo))))" by simp_all
  note u = get_forecast_unfetched [OF this(1)] and u' = get_forecast_unfetched [OF this(2)]
  show "fst (get_forecast r net calls la lo) = Inr ''Unable to fetch points data for this location.''"
    unfolding u by simp
  show "fst (get_forecast r net calls la lo)
            \<noteq> Inr ''Invalid points data received: missing forecast information.''"
    unfolding u by simp
  show "fst (get_forecast r net calls la lo) = fst (get_forecast r net' calls la lo)"
    unfolding u u' by simp
next
  assume a: "fst (make_nws_request net calls (JStr (alerts_url state))) = JObj []
      \<and> fst (make_nws_request net' calls (JStr (alerts_url state))) = JNull"
  then have e: "fst (make_nws_request net calls (JStr (alerts_url state))) = JObj []"
    and n: "fst (make_nws_request net' calls (JStr (alerts_url state))) = JNull" by simp_all
  show "fst (get_alerts r net calls state) = Inr ''Unable to fetch alerts or no alerts found.''"
    unfolding fst_get_alerts [OF e] by simp
  show "fst (get_alerts r net calls state) = fst (get_alerts r net' calls state)"
    unfolding fst_get_alerts [OF e] fst_get_alerts [OF n] by simp
qed

lemma points_has_forecast:
  "has_nested (fst (make_nws_request (first_then points_response b) [] (JStr u)))
     ''properties'' ''forecast'' (JStr ''U'')"
  by (simp add: fetch_first points_response_def has_nested_def)

lemma fetch_later:
  "calls \<noteq> [] \<Longrightarrow> fst (make_nws_request (first_then a b) calls (JStr u)) = b"
  by (simp add: make_nws_request_def request_body_def raise_for_status_def res_json_def first_then_def)

lemma forecast_has_periods:
  "has_nested (fst (make_nws_request (first_then a (forecast_response ps)) (calls @ [c]) (JStr u)))
     ''properties'' ''periods'' (JArr ps)"
  by (simp add: fetch_later forecast_response_def has_nested_def)

lemma is_period_record_named: "is_period_record (period_named n)"
  by (simp add: is_period_record_def period_named_def period_fields_def)


text \<open>
  Read as it stands, the second case of the four fails on the empty object: it lacks
  \<^verbatim>\<open>properties.forecast\<close>, and the answer is the message of the fetch stage.
\<close>

theorem get_forecast_empty_object_counterexample:
  "lacks_nested (JObj []) ''properties'' ''forecast''
   \<and> fst (make_nws_request (always (Response 200 (Some (JObj [])))) []
           (JStr (points_url plain_render origin origin))) = JObj []
   \<and> fst (get_forecast plain_render (always (Response 200 (Some (JObj [])))) [] origin origin)
       \<noteq> Inr ''Invalid points data received: missing forecast information.''"
proof -
  have "\<not> truthy (fst (make_nws_request (always (Response 200 (Some (JObj [])))) []
           (JStr (points_url plain_render origin origin))))"
    by (simp add: fetch_always)
  note u = get_forecast_unfetched [OF this]
  show ?thesis unfolding u by (simp add: lacks_nested_def fetch_always)
qed

theorem get_forecast_messages_witness:
  "fst (get_forecast plain_render (always (Raises ConnectError)) [] origin origin)
      = Inr ''Unable to fetch points data for this location.''
   \<and> fst (get_forecast plain_render (always (Response 200 (Some (JObj [(''properties'', JObj [])])))) []
        origin origin)
      = Inr ''Invalid points data received: missing forecast information.''
   \<and> fst (get_forecast plain_render (first_then points_response JNull) [] origin origin)
      = Inr ''Unable to fetch forecast data for this location.''
   \<and> fst (get_forecast plain_render (first_then points_response (JObj [(''properties'', JObj [])])) []
        origin origin)
      = Inr ''Invalid forecast data received: missing period information.''"
proof -
  have a: "\<not> truthy (fst (make_nws_request (always (Raises ConnectError)) []
             (JStr (points_url plain_render origin origin))))"
    by (simp add: make_nws_request_def request_body_def always_def)
  have b: "object_lacks (fst (make_nws_request
             (always (Response 200 (Some (JObj [(''properties'', JObj [])])))) []
             (JStr (points_url plain_render origin origin)))) ''properties'' ''forecast''"
    by (simp add: fetch_always object_lacks_def)
  have c: "\<not> truthy (fst (make_nws_request (first_then points_response JNull)
             ([] @ [JStr (points_url plain_render origin origin)]) (JStr ''U'')))"
    by (simp add: fetch_later)
  have d: "object_lacks (fst (make_nws_request
             (first_then points_response (JObj [(''properties'', JObj [])]))
             ([] @ [JStr (points_url plain_render origin origin)]) (JStr ''U''))) ''properties'' ''periods''"
    by (simp add: fetch_later object_lacks_def)
  show ?thesis
    using get_forecast_messages [of "always (Raises ConnectError)" "[]" plain_render origin origin JNull] a
      get_forecast_messages [of "always (Response 200 (Some (JObj [(''properties'', JObj [])])))" "[]"
        plain_render origin origin JNull] b
      get_forecast_messages [of "first_then points_response JNull" "[]" plain_render origin origin
        "JStr ''U''"] c
      get_forecast_messages [of "first_then points_response (JObj [(''properties'', JObj [])])" "[]"
        plain_render origin origin "JStr ''U''"] d
      points_has_forecast [of JNull "points_url plain_render origin origin"]
      points_has_forecast [of "JObj [(''properties'', JObj [])]" "points_url plain_render origin origin"]
    by simp
qed

text \<open>Seven periods give the blocks of the first five, in order; two periods give both.\<close>

theorem get_forecast_first_five_witness:
  "fst (get_forecast plain_render (first_then points_response (forecast_response seven_periods)) []
         origin origin)
     = Inr (period_block ''P1'' @ ''\<newline>---\<newline>'' @ period_block ''P2'' @ ''\<newline>---\<newline>''
          @ period_block ''P3'' @ ''\<newline>---\<newline>'' @ period_block ''P4'' @ ''\<newline>---\<newline>''
          @ period_block ''P5'')
   \<and> fst (get_forecast plain_render
         (first_then points_response (forecast_response [period_named ''P1'', period_named ''P2''])) []
         origin origin)
     = Inr (period_block ''P1'' @ ''\<newline>---\<newline>'' @ period_block ''P2'')"
proof -
  have pin: "blocks = map period_block ns"
    if "map (format_period plain_render) (map period_named ns) = map Inr blocks" for blocks ns
  proof -
    have "map (format_period plain_render) (map period_named ns)
        = (map Inr (map period_block ns) :: (py_error + string) list)"
      by (simp add: format_period_named)
    with that have "map Inr blocks = (map Inr (map period_block ns) :: (py_error + string) list)"
      by (simp only:)
    then show ?thesis unfolding inj_map_eq_map [OF inj_Inr] .
  qed
  have t: "take 5 seven_periods = map period_named [''P1'', ''P2'', ''P3'', ''P4'', ''P5'']"
    by (simp add: seven_periods_def)
  have ok: "list_all is_period_record (take 5 seven_periods)"
    unfolding t by (simp add: is_period_record_named)
  from get_forecast_first_five [OF points_has_forecast forecast_has_periods ok]
  obtain blocks where b: "map (format_period plain_render) (take 5 seven_periods) = map Inr blocks"
    and r: "fst (get_forecast plain_render (first_then points_response (forecast_response seven_periods)) []
         origin origin) = Inr (spec_separated blocks)"
    by blast
  from b have "blocks = map period_block [''P1'', ''P2'', ''P3'', ''P4'', ''P5'']"
    unfolding t by (rule pin)
  with r have seven: "fst (get_forecast plain_render
         (first_then points_response (forecast_response seven_periods)) [] origin origin)
     = Inr (period_block ''P1'' @ ''\<newline>---\<newline>'' @ period_block ''P2'' @ ''\<newline>---\<newline>''
          @ period_block ''P3'' @ ''\<newline>---\<newline>'' @ period_block ''P4'' @ ''\<newline>---\<newline>''
          @ period_block ''P5'')"
    by (simp add: spec_separated_def)
  have t2: "take 5 [period_named ''P1'', period_named ''P2''] = map period_named [''P1'', ''P2'']"
    by simp
  have ok2: "list_all is_period_record (take 5 [period_named ''P1'', period_named ''P2''])"
    by (simp add: is_period_record_named)
  from get_forecast_first_five [OF points_has_forecast forecast_has_periods ok2]
  obtain blocks2
    where b2: "map (format_period plain_render) (take 5 [period_named ''P1'', period_named ''P2''])
        = map Inr blocks2"
    and r2: "fst (get_forecast plain_render
         (first_then points_response (forecast_response [period_named ''P1'', period_named ''P2''])) []
         origin origin) = Inr (spec_separated blocks2)"
    by blast
  from b2 have "blocks2 = map period_block [''P1'', ''P2'']"
    unfolding t2 by (rule pin)
  with r2 have two: "fst (get_forecast plain_render
         (first_then points_response (forecast_response [period_named ''P1'', period_named ''P2''])) []
         origin origin)
     = Inr (period_block ''P1'' @ ''\<newline>---\<newline>'' @ period_block ''P2'')"
    by (simp add: spec_separated_def)
  from seven two show ?thesis by blast
qed

text \<open>
  The missing field of a period is not the only error that leaves the tools: a points
  response whose \<^verbatim>\<open>properties\<close> is \<^verbatim>\<open>null\<close> lacks \<^verbatim>\<open>properties.forecast\<close>, no period
  is read, and the membership test of line 72 raises \<^verbatim>\<open>TypeError\<close>.
\<close>

theorem get_forecast_null_properties_counterexample:
  "lacks_nested (JObj [(''properties'', JNull)]) ''properties'' ''forecast''
   \<and> fst (make_nws_request (always (Response 200 (Some (JObj [(''properties'', JNull)])))) []
           (JStr (points_url plain_render origin origin))) = JObj [(''properties'', JNull)]
   \<and> fst (get_forecast plain_render (always (Response 200 (Some (JObj [(''properties'', JNull)])))) []
           origin origin) = Inl TypeError"
  by (simp add: lacks_nested_def fetch_always get_forecast_def case_prod_unfold Let_def
      missing_nested_def)

theorem get_forecast_missing_field_raises_witness:
  "list_ex lacks_period_field (take 5 [period_named ''P1'', period_without_temperature])
   \<and> (\<exists>e. fst (get_forecast plain_render
        (first_then points_response (forecast_response [period_named ''P1'', period_without_temperature]))
        [] origin origin) = Inl e)"
proof -
  have l: "list_ex lacks_period_field (take 5 [period_named ''P1'', period_without_temperature])"
    by (simp add: lacks_period_field_def period_without_temperature_def period_fields_def)
  from get_forecast_missing_field_raises [OF points_has_forecast forecast_has_periods l] l
  show ?thesis by blast
qed

theorem get_forecast_second_fetch_witness:
  "snd (get_forecast plain_render (first_then points_response JNull) [] origin origin)
     = [JStr (points_url plain_render origin origin), JStr ''U'']"
  using get_forecast_second_fetch [OF points_has_forecast [of JNull "points_url plain_render origin origin"]]
  by simp

theorem empty_object_as_failed_fetch_witness:
  "fst (get_forecast plain_render (always (Response 200 (Some (JObj [])))) [] origin origin)
      = Inr ''Unable to fetch points data for this location.''
   \<and> fst (get_forecast plain_render (always (Response 200 (Some (JObj [])))) [] origin origin)
      = fst (get_forecast plain_render (always (Raises ConnectError)) [] origin origin)
   \<and> fst (get_alerts plain_render (always (Response 200 (Some (JObj [])))) [] ''OH'')
      = Inr ''Unable to fetch alerts or no alerts found.''
   \<and> fst (get_alerts plain_render (always (Response 200 (Some (JObj [])))) [] ''OH'')
      = fst (get_alerts plain_render (always (Raises ConnectError)) [] ''OH'')"
proof -
  have n: "fst (make_nws_request (always (Raises ConnectError)) [] (JStr u)) = JNull" for u
    by (simp add: make_nws_request_def request_body_def always_def)
  show ?thesis
    using empty_object_as_failed_fetch [of "always (Response 200 (Some (JObj [])))" "[]" plain_render
        origin origin "always (Raises ConnectError)" "''OH''"]
    unfolding fetch_always n by blast
qed

end
